theory Spec2Isabelle
  imports Main "HOL-Library.Sublist"
begin

section \<open>Python strings\<close>

text \<open>
  A Python \<^verbatim>\<open>str\<close> is modelled by the bytes of its UTF-8 encoding, a
  \<^typ>\<open>string\<close>: the child is spawned with \<^verbatim>\<open>encoding='utf-8'\<close>, so every text
  the program reads is well-formed UTF-8. An ASCII character is one byte below 128 and
  occurs nowhere inside the encoding of another character, and the encoding of a
  character begins with a byte that occurs nowhere else in an encoding. Splitting at
  the line feed, joining, and the substring test \<^verbatim>\<open>a in b\<close>, which is
  \<^const>\<open>sublist\<close>, are therefore the same on the bytes as on the characters.
\<close>

text \<open>
  The characters for which \<^verbatim>\<open>str.isspace\<close> holds, each by its encoding:
  U+0009 to U+000D, U+001C to U+0020, U+0085, U+00A0, U+1680, U+2000 to U+200A, U+2028,
  U+2029, U+202F, U+205F and U+3000.
\<close>

definition whitespace :: "string list" where
  "whitespace =
     [[CHR 0x09], [CHR 0x0A], [CHR 0x0B], [CHR 0x0C], [CHR 0x0D],
      [CHR 0x1C], [CHR 0x1D], [CHR 0x1E], [CHR 0x1F], [CHR 0x20],
      [CHR 0xC2, CHR 0x85], [CHR 0xC2, CHR 0xA0],
      [CHR 0xE1, CHR 0x9A, CHR 0x80],
      [CHR 0xE2, CHR 0x80, CHR 0x80], [CHR 0xE2, CHR 0x80, CHR 0x81],
      [CHR 0xE2, CHR 0x80, CHR 0x82], [CHR 0xE2, CHR 0x80, CHR 0x83],
      [CHR 0xE2, CHR 0x80, CHR 0x84], [CHR 0xE2, CHR 0x80, CHR 0x85],
      [CHR 0xE2, CHR 0x80, CHR 0x86], [CHR 0xE2, CHR 0x80, CHR 0x87],
      [CHR 0xE2, CHR 0x80, CHR 0x88], [CHR 0xE2, CHR 0x80, CHR 0x89],
      [CHR 0xE2, CHR 0x80, CHR 0x8A],
      [CHR 0xE2, CHR 0x80, CHR 0xA8], [CHR 0xE2, CHR 0x80, CHR 0xA9],
      [CHR 0xE2, CHR 0x80, CHR 0xAF], [CHR 0xE2, CHR 0x81, CHR 0x9F],
      [CHR 0xE3, CHR 0x80, CHR 0x80]]"

text \<open>
  Removing, at the front of a text, every character whose encoding is in \<open>codes\<close>
  (encodings of one, two or three bytes). The first byte of an encoding fixes its
  length, so at most one of the three tests holds on a well-formed text.
\<close>

fun strip_front :: "string list \<Rightarrow> string \<Rightarrow> string" where
  "strip_front codes (a # b # c # s) =
     (if [a, b, c] \<in> set codes then strip_front codes s
      else if [a, b] \<in> set codes then strip_front codes (c # s)
      else if [a] \<in> set codes then strip_front codes (b # c # s)
      else a # b # c # s)"
| "strip_front codes [a, b] =
     (if [a, b] \<in> set codes then []
      else if [a] \<in> set codes then strip_front codes [b]
      else [a, b])"
| "strip_front codes [a] = (if [a] \<in> set codes then [] else [a])"
| "strip_front codes [] = []"

text \<open>\<^verbatim>\<open>s.strip()\<close>: the whitespace characters at both ends are removed. The far
  end is reached by reversing the bytes, where an encoding reads backwards.\<close>

definition strip :: "string \<Rightarrow> string" where
  "strip s = rev (strip_front (map rev whitespace) (rev (strip_front whitespace s)))"

text \<open>
  \<^verbatim>\<open>s.lower()\<close> on the ASCII letters: A-Z go to a-z. The program uses the lowered
  text for one thing only, the test whether it contains \<^verbatim>\<open>[error]\<close>. On a character
  outside ASCII Python's \<^verbatim>\<open>lower\<close> gives characters outside ASCII again, but for
  U+0130 and U+212A, which give \<^verbatim>\<open>i\<close> and \<^verbatim>\<open>k\<close>; neither is a character of the
  marker, so the test has the same answer when such characters are left as they are.
\<close>

definition lower_char :: "char \<Rightarrow> char" where
  "lower_char c =
     (case map_of (zip ''ABCDEFGHIJKLMNOPQRSTUVWXYZ'' ''abcdefghijklmnopqrstuvwxyz'') c of
        Some d \<Rightarrow> d
      | None \<Rightarrow> c)"

definition lower :: "string \<Rightarrow> string" where
  "lower s = map lower_char s"

text \<open>\<^verbatim>\<open>s.split(d)\<close> for a one-character separator: never the empty list, the empty
  text splits into one empty line.\<close>

fun str_split :: "char \<Rightarrow> string \<Rightarrow> string list" where
  "str_split d [] = [[]]"
| "str_split d (c # cs) =
     (if c = d then [] # str_split d cs
      else (case str_split d cs of
              [] \<Rightarrow> [[c]]
            | l # ls \<Rightarrow> (c # l) # ls))"

text \<open>\<^verbatim>\<open>sep.join(xs)\<close>.\<close>

fun join :: "string \<Rightarrow> string list \<Rightarrow> string" where
  "join sep [] = []"
| "join sep [x] = x"
| "join sep (x # y # ys) = x @ sep @ join sep (y # ys)"

text \<open>Decimal rendering of numbers inside f-strings.\<close>

fun str_of_nat :: "nat \<Rightarrow> string" where
  "str_of_nat n =
     (if n < 10 then [''0123456789'' ! n]
      else str_of_nat (n div 10) @ [''0123456789'' ! (n mod 10)])"

declare str_of_nat.simps [simp del]

definition str_of_int :: "int \<Rightarrow> string" where
  "str_of_int i = (if i < 0 then CHR ''-'' # str_of_nat (nat (- i)) else str_of_nat (nat i))"


section \<open>Exceptions\<close>

text \<open>
  The exception classes the program raises or catches, each with its message
  (\<^verbatim>\<open>str(e)\<close>). \<open>PexpectTIMEOUT\<close> and \<open>PexpectEOF\<close> are
  \<^verbatim>\<open>pexpect.exceptions.TIMEOUT\<close> and \<^verbatim>\<open>pexpect.exceptions.EOF\<close>;
  \<open>OtherException\<close> stands for every other subclass of \<^verbatim>\<open>Exception\<close>
  (an \<^verbatim>\<open>OSError\<close> of the file system or of the terminal, for instance).
\<close>

datatype exn =
    ValueError string
  | RuntimeError string
  | PexpectTIMEOUT string
  | PexpectEOF string
  | OtherException string

fun exn_str :: "exn \<Rightarrow> string" where
  "exn_str (ValueError m) = m"
| "exn_str (RuntimeError m) = m"
| "exn_str (PexpectTIMEOUT m) = m"
| "exn_str (PexpectEOF m) = m"
| "exn_str (OtherException m) = m"


section \<open>The child process behind the pseudo-terminal\<close>

text \<open>
  \<^verbatim>\<open>pexpect\<close> is a library, not part of the program. Its \<^verbatim>\<open>spawn\<close> object is
  modelled by what the program can observe of it. The child's behaviour is a script:
  the list \<open>pending\<close> of what the program will run into, in order: the outcomes of
  its coming blocking reads and, between them, the child's own exit.
\<close>

datatype pattern = Regex string | TIMEOUT | EOF

datatype outcome =
    Prompt nat string   \<comment> \<open>the pattern at this index of the list matched; the text before the match\<close>
  | TimedOut string     \<comment> \<open>the deadline passed; the text read so far\<close>
  | StreamEnded string  \<comment> \<open>the child closed its output; the text read so far\<close>
  | Fault string        \<comment> \<open>the read raised another exception, with this message\<close>
  | Died                \<comment> \<open>the child has exited by itself\<close>

record child =
  alive :: bool               \<comment> \<open>the child was running when the program last looked\<close>
  pending :: "outcome list"
  sent :: "string list"       \<comment> \<open>the lines written with \<^verbatim>\<open>sendline\<close>, oldest first\<close>
  before_text :: string       \<comment> \<open>the attribute \<^verbatim>\<open>before\<close>\<close>
  buffer :: string            \<comment> \<open>the attribute \<^verbatim>\<open>buffer\<close>\<close>
  forced :: bool              \<comment> \<open>\<^verbatim>\<open>terminate(force=True)\<close> has been called on the child\<close>

text \<open>
  \<^verbatim>\<open>spawn.isalive()\<close> polls the child: one that was seen dead stays dead, and one that
  has exited since the program last looked is found dead now.
\<close>

definition isalive :: "child \<Rightarrow> bool \<times> child" where
  "isalive p =
     (if \<not> alive p then (False, p)
      else (case pending p of
              Died # evs \<Rightarrow> (False, p\<lparr>alive := False, pending := evs\<rparr>)
            | _ \<Rightarrow> (True, p)))"

definition sendline :: "string \<Rightarrow> child \<Rightarrow> child" where
  "sendline s p = p\<lparr>sent := sent p @ [s]\<rparr>"

fun is_regex :: "pattern \<Rightarrow> bool" where
  "is_regex (Regex r) = True"
| "is_regex TIMEOUT = False"
| "is_regex EOF = False"

fun index_of :: "pattern \<Rightarrow> pattern list \<Rightarrow> nat option" where
  "index_of x [] = None"
| "index_of x (y # ys) =
     (if x = y then Some 0 else map_option Suc (index_of x ys))"

text \<open>
  What a read that waits for \<open>pats\<close> runs into. A prompt that names no regular
  expression of \<open>pats\<close> is not waited for: its text is read and the wait goes on (this
  is the wait for the end of the stream in \<open>close\<close>). A script that is used up is a
  child that stays silent: the deadline passes.
\<close>

fun next_outcome :: "pattern list \<Rightarrow> outcome list \<Rightarrow> outcome \<times> outcome list" where
  "next_outcome pats [] = (TimedOut [], [])"
| "next_outcome pats (Prompt i b # evs) =
     (if i < length pats \<and> is_regex (pats ! i) then (Prompt i b, evs)
      else next_outcome pats evs)"
| "next_outcome pats (ev # evs) = (ev, evs)"

text \<open>
  \<^verbatim>\<open>spawn.expect(pats, timeout=t)\<close>. A pattern list may hold the sentinels
  \<^verbatim>\<open>pexpect.TIMEOUT\<close> and \<^verbatim>\<open>pexpect.EOF\<close>: the deadline, or the end of
  the stream, then returns the sentinel's index; it raises the exception of that name
  only when the sentinel is not in the list. The end of the stream leaves a child that
  \<^verbatim>\<open>isalive()\<close> reports dead, and a dead child's stream has ended; a child that
  exits while the program reads ends the stream with nothing more read. The deadline
  itself is the environment's: \<open>t\<close> does not change which outcome the script holds.
\<close>

definition expect :: "pattern list \<Rightarrow> int \<Rightarrow> child \<Rightarrow> (exn + nat) \<times> child" where
  "expect pats t p =
     (case (if alive p then next_outcome pats (pending p) else (StreamEnded [], pending p)) of
        (Prompt i b, rest) \<Rightarrow>
          (Inr i, p\<lparr>pending := rest, before_text := b, buffer := []\<rparr>)
      | (TimedOut b, rest) \<Rightarrow>
          (case index_of TIMEOUT pats of
             Some i \<Rightarrow> (Inr i, p\<lparr>pending := rest, before_text := b, buffer := b\<rparr>)
           | None \<Rightarrow> (Inl (PexpectTIMEOUT ''Timeout exceeded.''),
                      p\<lparr>pending := rest, before_text := b, buffer := b\<rparr>))
      | (StreamEnded b, rest) \<Rightarrow>
          (case index_of EOF pats of
             Some i \<Rightarrow> (Inr i, p\<lparr>alive := False, pending := rest, before_text := b, buffer := []\<rparr>)
           | None \<Rightarrow> (Inl (PexpectEOF ''End Of File (EOF).''),
                      p\<lparr>alive := False, pending := rest, before_text := b, buffer := []\<rparr>))
      | (Fault m, rest) \<Rightarrow> (Inl (OtherException m), p\<lparr>pending := rest\<rparr>)
      | (Died, rest) \<Rightarrow>
          (case index_of EOF pats of
             Some i \<Rightarrow> (Inr i, p\<lparr>alive := False, pending := rest, before_text := [], buffer := []\<rparr>)
           | None \<Rightarrow> (Inl (PexpectEOF ''End Of File (EOF).''),
                      p\<lparr>alive := False, pending := rest, before_text := [], buffer := []\<rparr>)))"

text \<open>\<^verbatim>\<open>spawn.terminate(force=True)\<close>: it polls the child and kills it if it is
  still running; the child is dead afterwards.\<close>

definition terminate_force :: "child \<Rightarrow> child" where
  "terminate_force p = (snd (isalive p))\<lparr>alive := False, forced := True\<rparr>"


section \<open>The world outside the program\<close>

text \<open>
  \<open>fs\<close> answers \<^verbatim>\<open>Path.exists()\<close> for a path: the file is there, it is not, or
  the probe raises an \<^verbatim>\<open>OSError\<close> (a directory on the way that may not be searched).
  \<open>launch n\<close> is what call number \<open>n\<close> of \<^verbatim>\<open>pexpect.spawn\<close> does: it raises
  (the command is not found) or it starts a child with this script. \<open>spawned\<close> counts
  the calls of \<^verbatim>\<open>pexpect.spawn\<close>.
\<close>

datatype probe = Present | Absent | Denied string

record world =
  fs :: "string \<Rightarrow> probe"
  launch :: "nat \<Rightarrow> string + outcome list"
  spawned :: nat

definition path_exists :: "world \<Rightarrow> string \<Rightarrow> exn + bool" where
  "path_exists w path =
     (case fs w path of
        Present \<Rightarrow> Inr True
      | Absent \<Rightarrow> Inr False
      | Denied m \<Rightarrow> Inl (OtherException m))"

text \<open>\<^verbatim>\<open>root / name\<close> of \<^verbatim>\<open>pathlib\<close>, for a root that has no trailing slash
  unless it is the file system's root.\<close>

definition path_join :: "string \<Rightarrow> string \<Rightarrow> string" where
  "path_join root name = (if root = ''/'' then root @ name else root @ ''/'' @ name)"

definition pexpect_spawn :: "world \<Rightarrow> (exn + child) \<times> world" where
  "pexpect_spawn w =
     (case launch w (spawned w) of
        Inl m \<Rightarrow> (Inl (OtherException m), w\<lparr>spawned := Suc (spawned w)\<rparr>)
      | Inr script \<Rightarrow>
          (Inr \<lparr>alive = True, pending = script, sent = [], before_text = [], buffer = [],
                forced = False\<rparr>,
           w\<lparr>spawned := Suc (spawned w)\<rparr>))"


section \<open>SBTProcess\<close>

record SBTProcess =
  root :: string
  process :: "child option"

definition bs :: char where
  "bs = CHR 0x5C"

text \<open>The prompt patterns of lines 48-53 and of line 95.\<close>

definition sbt_prompt :: string where
  "sbt_prompt = ''sbt:'' @ bs # ''w+>'' @ bs # ''s*''"

definition startup_patterns :: "pattern list" where
  "startup_patterns = [Regex sbt_prompt, Regex (''>'' @ bs # ''s*$''), TIMEOUT, EOF]"

text \<open>
  The three \<^verbatim>\<open>except\<close> clauses of \<open>_start_process\<close> (lines 58-73), in their
  order: each turns what the \<^verbatim>\<open>try\<close> block raised into the
  \<^verbatim>\<open>RuntimeError\<close> that leaves the method. \<^verbatim>\<open>hasattr\<close> fails on
  \<^verbatim>\<open>None\<close>, which gives \<^verbatim>\<open>N/A\<close>.
\<close>

fun startup_except :: "SBTProcess \<Rightarrow> exn \<Rightarrow> exn" where
  "startup_except self (PexpectTIMEOUT m) =
     RuntimeError (''SBT process failed to start within timeout period.\<newline>'' @
       ''Buffer: '' @ (case process self of None \<Rightarrow> ''N/A'' | Some p \<Rightarrow> buffer p) @ ''\<newline>'' @
       ''Before: '' @ (case process self of None \<Rightarrow> ''N/A'' | Some p \<Rightarrow> before_text p))"
| "startup_except self (PexpectEOF m) =
     RuntimeError (''SBT process terminated unexpectedly during startup.\<newline>'' @
       ''Before: '' @ (case process self of None \<Rightarrow> ''N/A'' | Some p \<Rightarrow> before_text p))"
| "startup_except self e =
     RuntimeError (''Failed to start SBT process: '' @ exn_str e)"

text \<open>The \<^verbatim>\<open>try\<close> block of \<open>_start_process\<close> (lines 38-56) under its handlers.\<close>

definition spawn_and_wait :: "world \<Rightarrow> SBTProcess \<Rightarrow> (exn + unit) \<times> SBTProcess \<times> world" where
  "spawn_and_wait w self =
     (case pexpect_spawn w of
        (Inl e, w') \<Rightarrow> (Inl (startup_except self e), self, w')
      | (Inr p, w') \<Rightarrow>
          (case expect startup_patterns 120 p of
             (Inl e, p') \<Rightarrow>
               (Inl (startup_except (self\<lparr>process := Some p'\<rparr>) e),
                self\<lparr>process := Some p'\<rparr>, w')
           | (Inr index, p') \<Rightarrow>
               if index \<ge> 3 then
                 (Inl (startup_except (self\<lparr>process := Some p'\<rparr>)
                        (RuntimeError (''Failed to match prompt. Index: '' @ str_of_nat index))),
                  self\<lparr>process := Some p'\<rparr>, w')
               else (Inr (), self\<lparr>process := Some p'\<rparr>, w')))"

definition start_process :: "world \<Rightarrow> SBTProcess \<Rightarrow> (exn + unit) \<times> SBTProcess \<times> world" where
  "start_process w self =
     (case path_exists w (root self) of
        Inl e \<Rightarrow> (Inl e, self, w)
      | Inr False \<Rightarrow>
          (Inl (ValueError (''Project root '' @ root self @ '' does not exist.'')), self, w)
      | Inr True \<Rightarrow>
          (case path_exists w (path_join (root self) ''build.sbt'') of
             Inl e \<Rightarrow> (Inl e, self, w)
           | Inr False \<Rightarrow>
               (Inl (ValueError (''No build.sbt found in '' @ root self @
                                  ''. Not a valid SBT project.'')), self, w)
           | Inr True \<Rightarrow> spawn_and_wait w self))"

text \<open>
  \<open>SBTProcess(root)\<close>: the constructor. When \<open>_start_process\<close> raises, no object
  is returned to the caller. The finaliser \<open>__del__\<close>, which calls \<open>close\<close> on an
  object that is given up, is left out: it acts on a child that nothing refers to any more.
\<close>

definition SBTProcess_init :: "world \<Rightarrow> string \<Rightarrow> (exn + SBTProcess) \<times> world" where
  "SBTProcess_init w r =
     (case start_process w \<lparr>root = r, process = None\<rparr> of
        (Inl e, self, w') \<Rightarrow> (Inl e, w')
      | (Inr u, self, w') \<Rightarrow> (Inr self, w'))"

text \<open>
  Lines 98-110 of \<open>execute_command\<close>: the clean-up of the text before the prompt
  and the exit code read off it.
\<close>

definition postprocess :: "string \<Rightarrow> string \<Rightarrow> string \<times> int" where
  "postprocess command raw =
     (let lines = str_split CHR ''\<newline>'' raw;
          lines' = (case lines of
                      [] \<Rightarrow> lines
                    | first # others \<Rightarrow> if sublist command first then others else lines);
          output = strip (join ''\<newline>'' lines');
          exit_code = (if sublist ''[error]'' (lower output) then 1 else 0)
      in (output, exit_code))"

definition execute_command ::
  "SBTProcess \<Rightarrow> string \<Rightarrow> int \<Rightarrow> (exn + string \<times> int) \<times> SBTProcess" where
  "execute_command self command timeout =
     (case process self of
        None \<Rightarrow> (Inl (RuntimeError ''SBT process is not running''), self)
      | Some p \<Rightarrow>
          (case isalive p of
             (False, p0) \<Rightarrow>
               (Inl (RuntimeError ''SBT process is not running''), self\<lparr>process := Some p0\<rparr>)
           | (True, p0) \<Rightarrow>
            (case expect [Regex sbt_prompt] timeout (sendline command p0) of
               (Inr i, p') \<Rightarrow>
                 (Inr (postprocess command (before_text p')), self\<lparr>process := Some p'\<rparr>)
             | (Inl (PexpectTIMEOUT m), p') \<Rightarrow>
                 (Inr (''Command timed out after '' @ str_of_int timeout @ '' seconds'', 1),
                  self\<lparr>process := Some p'\<rparr>)
             | (Inl (PexpectEOF m), p') \<Rightarrow>
                 (Inr (''SBT process terminated unexpectedly'', 1),
                  self\<lparr>process := Some p'\<rparr>)
             | (Inl e, p') \<Rightarrow>
                 (Inr (''Error executing command: '' @ exn_str e, 1),
                  self\<lparr>process := Some p'\<rparr>))))"

text \<open>\<open>SBTProcess.close\<close>: the bare \<^verbatim>\<open>except\<close> takes whatever the wait raises.\<close>

definition SBTProcess_close :: "SBTProcess \<Rightarrow> SBTProcess" where
  "SBTProcess_close self =
     (case process self of
        None \<Rightarrow> self
      | Some p \<Rightarrow>
          (case isalive p of
             (True, p0) \<Rightarrow>
               (case expect [EOF] 10 (sendline ''exit'' p0) of
                  (Inr i, p') \<Rightarrow> self\<lparr>process := Some p'\<rparr>
                | (Inl e, p') \<Rightarrow> self\<lparr>process := Some (terminate_force p')\<rparr>)
           | (False, p0) \<Rightarrow> self\<lparr>process := Some p0\<rparr>))"


section \<open>DottyProject\<close>

record DottyProject =
  project_root :: string              \<comment> \<open>the attribute \<^verbatim>\<open>root\<close>\<close>
  sbt_process :: "SBTProcess option"

definition DottyProject_init :: "string \<Rightarrow> DottyProject" where
  "DottyProject_init r = \<lparr>project_root = r, sbt_process = None\<rparr>"

definition ensure_sbt_running ::
  "world \<Rightarrow> DottyProject \<Rightarrow> (exn + unit) \<times> DottyProject \<times> world" where
  "ensure_sbt_running w self =
     (case sbt_process self of
        None \<Rightarrow>
          (case SBTProcess_init w (project_root self) of
             (Inl e, w') \<Rightarrow> (Inl e, self, w')
           | (Inr s, w') \<Rightarrow> (Inr (), self\<lparr>sbt_process := Some s\<rparr>, w'))
      | Some s \<Rightarrow> (Inr (), self, w))"

text \<open>The three \<^verbatim>\<open>except\<close> clauses that close \<open>scalac\<close> (lines 187-192) and
  \<open>testCompilation\<close> (lines 222-227).\<close>

fun facade_except :: "exn \<Rightarrow> string" where
  "facade_except (ValueError m) = ''Error: '' @ m"
| "facade_except (RuntimeError m) = ''Error: '' @ m"
| "facade_except e = ''Unexpected error: '' @ exn_str e"

text \<open>
  The call \<^verbatim>\<open>self.sbt_process.execute_command(command)\<close> with the default
  timeout of 300 seconds; on \<^verbatim>\<open>None\<close> the attribute access raises.
\<close>

definition run_command ::
  "DottyProject \<Rightarrow> string \<Rightarrow> (exn + string \<times> int) \<times> DottyProject" where
  "run_command self command =
     (case sbt_process self of
        None \<Rightarrow>
          (Inl (OtherException
                  (CHR 0x27 # ''NoneType'' @ CHR 0x27 #
                   '' object has no attribute '' @ CHR 0x27 # ''execute_command'' @ [CHR 0x27])),
           self)
      | Some s \<Rightarrow>
          (case execute_command s command 300 of
             (r, s') \<Rightarrow> (r, self\<lparr>sbt_process := Some s'\<rparr>)))"

text \<open>The body of the \<^verbatim>\<open>try\<close> statement of \<open>scalac\<close> (lines 167-185).\<close>

definition scalac_try ::
  "world \<Rightarrow> DottyProject \<Rightarrow> string \<Rightarrow> string list \<Rightarrow> (exn + string) \<times> DottyProject \<times> world" where
  "scalac_try w self file options =
     (case ensure_sbt_running w self of
        (Inl e, self', w') \<Rightarrow> (Inl e, self', w')
      | (Inr u, self', w') \<Rightarrow>
          (let all_options = ''-color:never'' # (if options \<noteq> [] then options else []);
               options_str = join '' '' all_options;
               command = ''scalac '' @ file @ '' '' @ options_str
           in case run_command self' command of
                (Inl e, self'') \<Rightarrow> (Inl e, self'', w')
              | (Inr (output, exit_code), self'') \<Rightarrow>
                  (Inr (if exit_code = 0 \<and> output = [] then ''Successfully compiled '' @ file
                        else if exit_code = 0 \<and> output \<noteq> [] then
                          ''Successfully compiled '' @ file @
                          ''\<newline>\<newline>Output:\<newline>'' @ output
                        else ''Compilation failed for '' @ file @ ''\<newline>\<newline>'' @ output),
                   self'', w')))"

definition scalac ::
  "world \<Rightarrow> DottyProject \<Rightarrow> string \<Rightarrow> string list \<Rightarrow> string \<times> DottyProject \<times> world" where
  "scalac w self file options =
     (case scalac_try w self file options of
        (Inr text, self', w') \<Rightarrow> (text, self', w')
      | (Inl e, self', w') \<Rightarrow> (facade_except e, self', w'))"

text \<open>The body of the \<^verbatim>\<open>try\<close> statement of \<open>testCompilation\<close> (lines 205-220).\<close>

definition testCompilation_try ::
  "world \<Rightarrow> DottyProject \<Rightarrow> string \<Rightarrow> (exn + string) \<times> DottyProject \<times> world" where
  "testCompilation_try w self pattern =
     (case ensure_sbt_running w self of
        (Inl e, self', w') \<Rightarrow> (Inl e, self', w')
      | (Inr u, self', w') \<Rightarrow>
          (let command = (if pattern \<noteq> [] then ''testCompilation '' @ pattern
                          else ''testCompilation'')
           in case run_command self' command of
                (Inl e, self'') \<Rightarrow> (Inl e, self'', w')
              | (Inr (output, exit_code), self'') \<Rightarrow>
                  (Inr (if exit_code = 0 then
                          (if output \<noteq> [] then
                             ''Test compilation succeeded\<newline>\<newline>'' @ output
                           else ''Test compilation succeeded'')
                        else ''Test compilation failed\<newline>\<newline>'' @ output),
                   self'', w')))"

definition testCompilation ::
  "world \<Rightarrow> DottyProject \<Rightarrow> string \<Rightarrow> string \<times> DottyProject \<times> world" where
  "testCompilation w self pattern =
     (case testCompilation_try w self pattern of
        (Inr text, self', w') \<Rightarrow> (text, self', w')
      | (Inl e, self', w') \<Rightarrow> (facade_except e, self', w'))"

definition DottyProject_close :: "DottyProject \<Rightarrow> DottyProject" where
  "DottyProject_close self =
     (case sbt_process self of
        None \<Rightarrow> self
      | Some s \<Rightarrow> self\<lparr>sbt_process := Some (SBTProcess_close s)\<rparr>)"


section \<open>Notions of the specification\<close>

text \<open>
  Case-insensitive containment, as the specification words it: some stretch of the text
  spells the marker when the case of the letters is disregarded. Two characters are the
  same letter when lowering both gives the same character.
\<close>

definition same_letter :: "char \<Rightarrow> char \<Rightarrow> bool" where
  "same_letter a b = (lower_char a = lower_char b)"

fun contains_ignoring_case :: "string \<Rightarrow> string \<Rightarrow> bool" where
  "contains_ignoring_case marker [] = (marker = [])"
| "contains_ignoring_case marker (c # cs) =
     (list_all2 same_letter marker (take (length marker) (c # cs)) \<or>
      contains_ignoring_case marker cs)"

text \<open>The number that a decimal numeral denotes, with a leading minus sign for a
  negative one.\<close>

definition nat_of_str :: "string \<Rightarrow> nat" where
  "nat_of_str ds = foldl (\<lambda>n c. 10 * n + (of_char c - 48)) 0 ds"

definition int_of_str :: "string \<Rightarrow> int" where
  "int_of_str ds =
     (case ds of
        [] \<Rightarrow> 0
      | c # cs \<Rightarrow> if c = CHR ''-'' then - int (nat_of_str cs) else int (nat_of_str ds))"

text \<open>The first line of a text.\<close>

definition leading_line :: "string \<Rightarrow> string" where
  "leading_line s = takeWhile (\<lambda>c. c \<noteq> CHR ''\<newline>'') s"


section \<open>Sample worlds and sessions\<close>

text \<open>A file system in which every path exists, and one that lacks the marker file
  of the project \<^verbatim>\<open>/proj\<close>.\<close>

definition all_present :: "string \<Rightarrow> probe" where
  "all_present path = Present"

definition no_marker :: "string \<Rightarrow> probe" where
  "no_marker path = (if path = ''/proj/build.sbt'' then Absent else Present)"

text \<open>A world in which nothing has been spawned yet and every child follows \<open>script\<close>.\<close>

definition world_of :: "(string \<Rightarrow> probe) \<Rightarrow> outcome list \<Rightarrow> world" where
  "world_of f script = \<lparr>fs = f, launch = (\<lambda>n. Inr script), spawned = 0\<rparr>"

text \<open>A session of the project \<^verbatim>\<open>/proj\<close> whose running child follows \<open>script\<close>.\<close>

definition running :: "outcome list \<Rightarrow> SBTProcess" where
  "running script =
     \<lparr>root = ''/proj'',
      process = Some \<lparr>alive = True, pending = script, sent = [], before_text = [],
                      buffer = [], forced = False\<rparr>\<rparr>"


section \<open>Splitting and joining lines\<close>

lemma str_split_not_Nil: "str_split d s \<noteq> []"
  by (induction s) (auto split: list.splits)

lemma join_str_split: "join [d] (str_split d s) = s"
proof (induction s)
  case Nil
  then show ?case by simp
next
  case (Cons c cs)
  obtain x xs where r: "str_split d cs = x # xs"
    using str_split_not_Nil[of d cs] by (cases "str_split d cs") auto
  show ?case using Cons r by (cases xs) auto
qed

lemma str_split_one_line: "d \<notin> set l \<Longrightarrow> str_split d l = [l]"
  by (induction l) auto

lemma str_split_first_line:
  "d \<notin> set l \<Longrightarrow> str_split d (l @ d # rest) = l # str_split d rest"
  by (induction l) auto


section \<open>Lower case and containment\<close>

lemma prefix_map_take:
  "prefix (map f m) (map f t) \<longleftrightarrow> list_all2 (\<lambda>a b. f a = f b) m (take (length m) t)"
proof (induction m arbitrary: t)
  case Nil
  then show ?case by simp
next
  case (Cons a m)
  then show ?case by (cases t) auto
qed

lemma contains_ignoring_case_lower:
  "contains_ignoring_case m t \<longleftrightarrow> sublist (lower m) (lower t)"
proof (induction t)
  case Nil
  then show ?case by (simp add: lower_def)
next
  case (Cons c cs)
  have "prefix (lower m) (lower (c # cs)) \<longleftrightarrow>
        list_all2 same_letter m (take (length m) (c # cs))"
    unfolding lower_def same_letter_def by (rule prefix_map_take)
  then show ?case
    using Cons by (simp add: sublist_Cons_right lower_def)
qed

lemma lower_error_marker: "lower ''[error]'' = ''[error]''"
  by (simp add: lower_def lower_char_def)


section \<open>Whitespace and numerals\<close>

lemma strip_unicode_space:
  "strip (CHR 0xC2 # CHR 0xA0 # ''ok '' @ [CHR 0xE2, CHR 0x80, CHR 0xA8]) = ''ok''"
  by code_simp

lemma strip_inner_space: "strip ''  [info] a b  '' = ''[info] a b''"
  by code_simp

lemma strip_no_space: "strip [CHR 0xC2, CHR 0xA9] = [CHR 0xC2, CHR 0xA9]"
  by code_simp

lemma digits_table:
  "list_all (\<lambda>d. of_char (''0123456789'' ! d) - 48 = (d::nat)) [0..<10]"
  by code_simp

lemma digit_of_char: "d < 10 \<Longrightarrow> of_char (''0123456789'' ! d) - 48 = (d::nat)"
proof -
  assume "d < 10"
  then have "d \<in> set [0..<10]" by simp
  with digits_table show ?thesis
    unfolding list_all_iff by blast
qed

lemma nat_of_str_snoc: "nat_of_str (ds @ [c]) = 10 * nat_of_str ds + (of_char c - 48)"
  by (simp add: nat_of_str_def)

lemma nat_of_str_str_of_nat: "nat_of_str (str_of_nat n) = n"
proof (induction n rule: str_of_nat.induct)
  case (1 n)
  show ?case
  proof (cases "n < 10")
    case True
    then have "str_of_nat n = [''0123456789'' ! n]"
      by (subst str_of_nat.simps) simp
    then show ?thesis
      using digit_of_char [OF True] by (simp add: nat_of_str_def)
  next
    case False
    then have u: "str_of_nat n = str_of_nat (n div 10) @ [''0123456789'' ! (n mod 10)]"
      by (subst str_of_nat.simps) simp
    have "nat_of_str (str_of_nat n) =
          10 * nat_of_str (str_of_nat (n div 10)) + (of_char (''0123456789'' ! (n mod 10)) - 48)"
      unfolding u by (rule nat_of_str_snoc)
    also have "\<dots> = 10 * (n div 10) + n mod 10"
      using 1 [OF False] digit_of_char [of "n mod 10"] by simp
    finally show ?thesis by simp
  qed
qed

lemma str_of_nat_digits: "set (str_of_nat n) \<subseteq> set ''0123456789''"
proof (induction n rule: str_of_nat.induct)
  case (1 n)
  have d: "''0123456789'' ! k \<in> set ''0123456789''" if "k < 10" for k :: nat
    by (rule nth_mem) (use that in simp)
  show ?case
  proof (cases "n < 10")
    case True
    then have "str_of_nat n = [''0123456789'' ! n]"
      by (subst str_of_nat.simps) simp
    then show ?thesis using d [OF True] by simp
  next
    case False
    then have u: "str_of_nat n = str_of_nat (n div 10) @ [''0123456789'' ! (n mod 10)]"
      by (subst str_of_nat.simps) simp
    have "n mod 10 < 10" by simp
    from d [OF this] 1 [OF False] show ?thesis
      unfolding u by simp
  qed
qed

lemma str_of_nat_not_Nil: "str_of_nat n \<noteq> []"
  by (subst str_of_nat.simps) simp

lemma int_of_str_str_of_int: "int_of_str (str_of_int i) = i"
proof (cases "i < 0")
  case True
  obtain c cs where e: "str_of_nat (nat (- i)) = c # cs"
    using str_of_nat_not_Nil [of "nat (- i)"] by (cases "str_of_nat (nat (- i))") auto
  show ?thesis
    using True nat_of_str_str_of_nat [of "nat (- i)"]
    by (simp add: str_of_int_def int_of_str_def)
next
  case False
  obtain c cs where e: "str_of_nat (nat i) = c # cs"
    using str_of_nat_not_Nil [of "nat i"] by (cases "str_of_nat (nat i)") auto
  have "c \<in> set ''0123456789''"
    using str_of_nat_digits [of "nat i"] e by auto
  then have "c \<noteq> CHR ''-''" by auto
  then show ?thesis
    using False e nat_of_str_str_of_nat [of "nat i"]
    by (simp add: str_of_int_def int_of_str_def)
qed


section \<open>The blocking read\<close>

lemma next_outcome_Prompt:
  "next_outcome pats evs = (Prompt i b, rest) \<Longrightarrow> i < length pats \<and> is_regex (pats ! i)"
  by (induction pats evs rule: next_outcome.induct) (auto split: if_splits)

lemma index_of_prompt_only [simp]:
  "index_of EOF [Regex r] = None" "index_of TIMEOUT [Regex r] = None"
  by simp_all

lemma isalive_running: "fst (isalive p) \<Longrightarrow> isalive p = (True, p) \<and> alive p"
  by (auto simp: isalive_def split: if_splits list.splits outcome.splits)

lemma isalive_dead: "\<not> alive p \<Longrightarrow> isalive p = (False, p)"
  by (simp add: isalive_def)

lemma isalive_found_dead: "\<not> fst (isalive p) \<Longrightarrow> \<not> alive (snd (isalive p))"
  by (auto simp: isalive_def split: if_splits list.splits outcome.splits)

lemma isalive_sent: "sent (snd (isalive p)) = sent p"
  by (auto simp: isalive_def split: if_splits list.splits outcome.splits)

lemma isalive_after_read:
  "alive p \<Longrightarrow> fst (isalive p) \<longleftrightarrow> (\<forall>evs. pending p \<noteq> Died # evs)"
  by (auto simp: isalive_def split: list.splits outcome.splits)

lemma execute_command_on_prompt:
  assumes "process s = Some p" and "fst (isalive p)"
      and "next_outcome [Regex sbt_prompt] (pending p) = (Prompt i raw, rest)"
  shows "fst (execute_command s c t) = Inr (postprocess c raw)"
  using assms isalive_running [OF assms(2)]
  by (simp add: execute_command_def expect_def sendline_def)

lemma execute_command_not_running:
  assumes "process s = Some p" and "\<not> fst (isalive p)"
  shows "execute_command s c t =
           (Inl (RuntimeError ''SBT process is not running''),
            s\<lparr>process := Some (snd (isalive p))\<rparr>)"
  using assms by (cases "isalive p") (simp add: execute_command_def)

lemma postprocess_status:
  "snd (postprocess c raw) =
     (if contains_ignoring_case ''[error]'' (fst (postprocess c raw)) then 1 else 0)"
  by (simp add: postprocess_def Let_def contains_ignoring_case_lower lower_error_marker)

lemma postprocess_first_line:
  assumes "CHR ''\<newline>'' \<notin> set first"
  shows "fst (postprocess t (first @ CHR ''\<newline>'' # rest)) =
           strip (if sublist t first then rest else first @ CHR ''\<newline>'' # rest)"
proof -
  obtain x xs where r: "str_split CHR ''\<newline>'' rest = x # xs"
    using str_split_not_Nil[of "CHR ''\<newline>''" rest]
    by (cases "str_split CHR ''\<newline>'' rest") auto
  have j: "join ''\<newline>'' (x # xs) = rest"
    using join_str_split[of "CHR ''\<newline>''" rest] r by simp
  show ?thesis
    using assms r j by (simp add: postprocess_def Let_def str_split_first_line)
qed


section \<open>Executing a command\<close>

text \<open>
  Claim C2. If the child closes its output stream while a command is executed, that call
  returns the text \<^verbatim>\<open>SBT process terminated unexpectedly\<close> with status 1 and leaves
  a session whose child is dead; every later \<open>execute_command\<close> on that session, with
  any command and any timeout, raises \<^verbatim>\<open>RuntimeError("SBT process is not running")\<close>
  and leaves the session as it was, so nothing more is sent to the child.
\<close>

theorem stream_end_fails_session:
  assumes "process s = Some p" and "fst (isalive p)"
      and "next_outcome [Regex sbt_prompt] (pending p) = (StreamEnded txt, rest)"
  shows "\<exists>s' p'. execute_command s c t = (Inr (''SBT process terminated unexpectedly'', 1), s')
           \<and> process s' = Some p' \<and> \<not> alive p' \<and> sent p' = sent p @ [c]
           \<and> (\<forall>c' t'. execute_command s' c' t' =
                 (Inl (RuntimeError ''SBT process is not running''), s'))"
  using assms isalive_running [OF assms(2)]
  by (simp add: execute_command_def expect_def sendline_def isalive_dead)

theorem stream_end_fails_session_witness:
  "(let (r1, s1) = execute_command (running [StreamEnded ''[info] compiling'']) ''compile'' 300;
        (r2, s2) = execute_command s1 ''test'' 300
    in r1 = Inr (''SBT process terminated unexpectedly'', 1)
       \<and> r2 = Inl (RuntimeError ''SBT process is not running'')
       \<and> s2 = s1 \<and> map_option sent (process s2) = Some [''compile''])"
proof -
  let ?p = "\<lparr>alive = True, pending = [StreamEnded ''[info] compiling''], sent = [],
             before_text = [], buffer = [], forced = False\<rparr>"
  have a: "process (running [StreamEnded ''[info] compiling'']) = Some ?p"
    by (simp add: running_def)
  have b: "fst (isalive ?p)"
    by (simp add: isalive_def)
  have c: "next_outcome [Regex sbt_prompt] (pending ?p) = (StreamEnded ''[info] compiling'', [])"
    by simp
  from stream_end_fails_session [OF a b c, of "''compile''" 300] show ?thesis
    by (auto simp: Let_def)
qed

text \<open>
  Claim C5. If the blocking read of \<open>execute_command\<close> runs into its deadline, the call
  returns \<^verbatim>\<open>Command timed out after t seconds\<close>, where \<open>t\<close> is the decimal numeral
  of the timeout, with status 1. The program has done nothing to the child but send the
  command: the child is still taken to be running and \<^verbatim>\<open>terminate\<close> has not been
  called. The session stays usable: a later \<open>execute_command\<close> is accepted, it returns
  a result and its command is sent, whenever the poll of \<^verbatim>\<open>isalive()\<close> at its start
  finds the child running; and that poll fails only if the child has exited by itself
  after the deadline.
\<close>

theorem timeout_keeps_session_usable:
  assumes "process s = Some p" and "fst (isalive p)"
      and "next_outcome [Regex sbt_prompt] (pending p) = (TimedOut txt, rest)"
  shows "\<exists>s' p'. execute_command s c t =
             (Inr (''Command timed out after '' @ str_of_int t @ '' seconds'', 1), s')
           \<and> int_of_str (str_of_int t) = t
           \<and> process s' = Some p' \<and> alive p' \<and> forced p' = forced p
           \<and> sent p' = sent p @ [c] \<and> pending p' = rest
           \<and> (fst (isalive p') \<longleftrightarrow> (\<forall>evs. rest \<noteq> Died # evs))
           \<and> (\<forall>c' t'. fst (isalive p') \<longrightarrow>
                 (\<exists>r s'' p''. execute_command s' c' t' = (Inr r, s'')
                    \<and> process s'' = Some p'' \<and> sent p'' = sent p' @ [c']))"
proof -
  let ?p' = "p\<lparr>sent := sent p @ [c], pending := rest, before_text := txt, buffer := txt\<rparr>"
  let ?s' = "s\<lparr>process := Some ?p'\<rparr>"
  have run: "isalive p = (True, p)" and al: "alive p"
    using isalive_running [OF assms(2)] by simp_all
  have e: "execute_command s c t =
             (Inr (''Command timed out after '' @ str_of_int t @ '' seconds'', 1), ?s')"
    using assms(1,3) run al by (simp add: execute_command_def expect_def sendline_def)
  have poll: "fst (isalive ?p') \<longleftrightarrow> (\<forall>evs. rest \<noteq> Died # evs)"
    using al isalive_after_read [of ?p'] by simp
  have later: "\<exists>r s'' p''. execute_command ?s' c' t' = (Inr r, s'')
                 \<and> process s'' = Some p'' \<and> sent p'' = sent ?p' @ [c']"
    if "fst (isalive ?p')" for c' t'
  proof -
    have "isalive ?p' = (True, ?p')"
      using isalive_running [OF that] by simp
    then show ?thesis
      by (auto simp: execute_command_def expect_def sendline_def
               split: prod.splits outcome.splits sum.splits exn.splits option.splits)
  qed
  have c1: "int_of_str (str_of_int t) = t"
    by (rule int_of_str_str_of_int)
  have c2: "process ?s' = Some ?p'"
    by simp
  have c3: "alive ?p'"
    using al by simp
  have c4: "forced ?p' = forced p"
    by simp
  have c5: "sent ?p' = sent p @ [c]"
    by simp
  have c6: "pending ?p' = rest"
    by simp
  have c7: "\<forall>c' t'. fst (isalive ?p') \<longrightarrow>
              (\<exists>r s'' p''. execute_command ?s' c' t' = (Inr r, s'')
                 \<and> process s'' = Some p'' \<and> sent p'' = sent ?p' @ [c'])"
    using later by blast
  show ?thesis
    by (intro exI [of _ ?s'] exI [of _ ?p'] conjI) (rule e c1 c2 c3 c4 c5 c6 poll c7)+
qed

theorem timeout_keeps_session_usable_witness:
  "(let (r1, s1) = execute_command
          (running [TimedOut ''[info] compiling'', Prompt 0 ''test\<newline>[success] done''])
          ''compile'' 45;
        (r2, s2) = execute_command s1 ''test'' 300
    in r1 = Inr (''Command timed out after 45 seconds'', 1)
       \<and> map_option alive (process s1) = Some True
       \<and> map_option forced (process s1) = Some False
       \<and> r2 = Inr (''[success] done'', 0)
       \<and> map_option sent (process s2) = Some [''compile'', ''test''])
   \<and> (let (r1, s1) = execute_command (running [TimedOut [], Died]) ''compile'' (- 7);
           (r2, s2) = execute_command s1 ''test'' 300
       in r1 = Inr (''Command timed out after -7 seconds'', 1)
          \<and> r2 = Inl (RuntimeError ''SBT process is not running'')
          \<and> map_option sent (process s2) = Some [''compile''])"
proof -
  let ?p = "\<lparr>alive = True,
             pending = [TimedOut ''[info] compiling'', Prompt 0 ''test\<newline>[success] done''],
             sent = [], before_text = [], buffer = [], forced = False\<rparr>"
  let ?s = "running [TimedOut ''[info] compiling'', Prompt 0 ''test\<newline>[success] done'']"
  let ?p1 = "\<lparr>alive = True, pending = [Prompt 0 ''test\<newline>[success] done''],
              sent = [''compile''], before_text = ''[info] compiling'',
              buffer = ''[info] compiling'', forced = False\<rparr>"
  let ?q = "\<lparr>alive = True, pending = [TimedOut [], Died],
             sent = [], before_text = [], buffer = [], forced = False\<rparr>"
  let ?q1 = "\<lparr>alive = True, pending = [Died], sent = [''compile''], before_text = [],
              buffer = [], forced = False\<rparr>"
  have a: "process ?s = Some ?p"
    by (simp add: running_def)
  have b: "fst (isalive ?p)"
    by (simp add: isalive_def)
  have c: "next_outcome [Regex sbt_prompt] (pending ?p)
           = (TimedOut ''[info] compiling'', [Prompt 0 ''test\<newline>[success] done''])"
    by simp
  have d: "str_of_int 45 = ''45''" "str_of_int (- 7) = ''-7''"
    by (simp_all add: str_of_int_def str_of_nat.simps)
  have e: "postprocess ''test'' ''test\<newline>[success] done'' = (''[success] done'', 0)"
    by code_simp
  have r1: "execute_command ?s ''compile'' 45
            = (Inr (''Command timed out after 45 seconds'', 1), ?s\<lparr>process := Some ?p1\<rparr>)"
    by (simp add: execute_command_def expect_def sendline_def running_def isalive_def d)
  have r2: "fst (execute_command (?s\<lparr>process := Some ?p1\<rparr>) ''test'' 300)
            = Inr (''[success] done'', 0)"
    by (simp add: execute_command_def expect_def sendline_def running_def isalive_def e)
  have r3: "map_option sent
              (process (snd (execute_command (?s\<lparr>process := Some ?p1\<rparr>) ''test'' 300)))
            = Some [''compile'', ''test'']"
    by (simp add: execute_command_def expect_def sendline_def running_def isalive_def)
  have q1: "execute_command (running [TimedOut [], Died]) ''compile'' (- 7)
            = (Inr (''Command timed out after -7 seconds'', 1),
               (running [TimedOut [], Died])\<lparr>process := Some ?q1\<rparr>)"
    by (simp add: execute_command_def expect_def sendline_def running_def isalive_def d)
  have q2: "execute_command ((running [TimedOut [], Died])\<lparr>process := Some ?q1\<rparr>) ''test'' 300
            = (Inl (RuntimeError ''SBT process is not running''),
               (running [TimedOut [], Died])\<lparr>process := Some (?q1\<lparr>alive := False, pending := []\<rparr>)\<rparr>)"
    by (simp add: execute_command_def running_def isalive_def)
  from timeout_keeps_session_usable [OF a b c, of "''compile''" 45] r1 r2 r3 q1 q2
  show ?thesis
    by (simp add: Let_def split_beta)
qed

text \<open>
  Claim C3. When the prompt comes back, the status that \<open>execute_command\<close> returns
  is 1 if the returned (post-processed) text contains the marker \<^verbatim>\<open>[error]\<close> with its
  letters in any case, and 0 if it does not. The witness runs the three texts of the
  specification: \<^verbatim>\<open>[ERROR] bad\<close> and \<^verbatim>\<open>[error] bad\<close> give 1,
  \<^verbatim>\<open>ok, done\<close> gives 0.
\<close>

theorem error_marker_decides_status:
  assumes "process s = Some p" and "fst (isalive p)"
      and "next_outcome [Regex sbt_prompt] (pending p) = (Prompt i raw, rest)"
  shows "\<exists>out. fst (execute_command s c t) =
             Inr (out, if contains_ignoring_case ''[error]'' out then 1 else 0)
           \<and> out = fst (postprocess c raw)"
proof -
  have "postprocess c raw =
          (fst (postprocess c raw),
           if contains_ignoring_case ''[error]'' (fst (postprocess c raw)) then 1 else 0)"
    using postprocess_status [of c raw] by (cases "postprocess c raw") simp
  then show ?thesis
    using execute_command_on_prompt [OF assms, of c t] by simp
qed

theorem error_marker_decides_status_witness:
  "fst (execute_command (running [Prompt 0 ''compile\<newline>[ERROR] bad'']) ''compile'' 300)
     = Inr (''[ERROR] bad'', 1)
   \<and> fst (execute_command (running [Prompt 0 ''compile\<newline>[error] bad'']) ''compile'' 300)
     = Inr (''[error] bad'', 1)
   \<and> fst (execute_command (running [Prompt 0 ''compile\<newline>ok, done'']) ''compile'' 300)
     = Inr (''ok, done'', 0)"
proof -
  let ?p = "\<lparr>alive = True, pending = [Prompt 0 ''compile\<newline>[ERROR] bad''],
             sent = [], before_text = [], buffer = [], forced = False\<rparr>"
  have a: "process (running [Prompt 0 ''compile\<newline>[ERROR] bad'']) = Some ?p"
    by (simp add: running_def)
  have b: "fst (isalive ?p)"
    by (simp add: isalive_def)
  have c: "next_outcome [Regex sbt_prompt] (pending ?p)
           = (Prompt 0 ''compile\<newline>[ERROR] bad'', [])"
    by simp
  have e1: "postprocess ''compile'' ''compile\<newline>[ERROR] bad'' = (''[ERROR] bad'', 1)"
    by code_simp
  have e2: "postprocess ''compile'' ''compile\<newline>[error] bad'' = (''[error] bad'', 1)"
    by code_simp
  have e3: "postprocess ''compile'' ''compile\<newline>ok, done'' = (''ok, done'', 0)"
    by code_simp
  have m: "contains_ignoring_case ''[error]'' ''[ERROR] bad''"
    by code_simp
  from error_marker_decides_status [OF a b c, of "''compile''" 300] e1 m
  have "fst (execute_command (running [Prompt 0 ''compile\<newline>[ERROR] bad'']) ''compile'' 300)
     = Inr (''[ERROR] bad'', 1)"
    by auto
  moreover have "fst (execute_command (running [Prompt 0 ''compile\<newline>[error] bad'']) ''compile'' 300)
     = Inr (''[error] bad'', 1)"
    by (simp add: execute_command_def expect_def sendline_def running_def isalive_def e2)
  moreover have "fst (execute_command (running [Prompt 0 ''compile\<newline>ok, done'']) ''compile'' 300)
     = Inr (''ok, done'', 0)"
    by (simp add: execute_command_def expect_def sendline_def running_def isalive_def e3)
  ultimately show ?thesis by simp
qed

text \<open>
  Claim C4: what the clean-up does when the echo is not on the first line. The comments
  at lines 100 and 103 say that the command echo is removed, but only
  \<^verbatim>\<open>lines[0]\<close> is tested. For the command \<^verbatim>\<open>run\<close> and a raw text whose first
  line is blank and whose second line is the echo, nothing is dropped, trimming takes
  the blank line away, and the text returned has the echoed command as its leading line.
\<close>

theorem echo_survives_blank_first_line:
  "fst (execute_command (running [Prompt 0 ''\<newline>run\<newline>done'']) ''run'' 300)
     = Inr (''run\<newline>done'', 0)
   \<and> leading_line ''run\<newline>done'' = ''run''"
proof -
  have e: "postprocess ''run'' ''\<newline>run\<newline>done'' = (''run\<newline>done'', 0)"
    by code_simp
  show ?thesis
    by (simp add: execute_command_def expect_def sendline_def running_def isalive_def e
        leading_line_def)
qed


section \<open>Closing a session\<close>

lemma next_outcome_eof_only:
  "\<not> (\<exists>i b rest. next_outcome [EOF] evs = (Prompt i b, rest))"
  using next_outcome_Prompt [of "[EOF]" evs] by auto

lemma expect_eof_dead_or_raised:
  "(\<exists>i p'. expect [EOF] t q = (Inr i, p') \<and> \<not> alive p' \<and> sent p' = sent q
              \<and> forced p' = forced q)
   \<or> (\<exists>e p'. expect [EOF] t q = (Inl e, p') \<and> sent p' = sent q)"
proof (cases "alive q")
  case False
  then show ?thesis by (simp add: expect_def)
next
  case True
  obtain ev rest where n: "next_outcome [EOF] (pending q) = (ev, rest)"
    by (cases "next_outcome [EOF] (pending q)")
  show ?thesis
  proof (cases ev)
    case (Prompt i b)
    with n next_outcome_eof_only [of "pending q"] show ?thesis by simp
  qed (use True n in \<open>simp_all add: expect_def\<close>)
qed

lemma close_leaves_dead:
  assumes "process s = Some p"
  shows "\<exists>p'. process (SBTProcess_close s) = Some p' \<and> \<not> alive p'"
proof (cases "fst (isalive p)")
  case False
  then show ?thesis
    using assms isalive_found_dead [OF False]
    by (cases "isalive p") (simp add: SBTProcess_close_def)
next
  case True
  then have r: "isalive p = (True, p)"
    using isalive_running by simp
  from expect_eof_dead_or_raised [of 10 "sendline ''exit'' p"] show ?thesis
    using assms r by (auto simp: SBTProcess_close_def terminate_force_def)
qed

lemma close_twice: "SBTProcess_close (SBTProcess_close s) = SBTProcess_close s"
proof (cases "process s")
  case None
  then show ?thesis by (simp add: SBTProcess_close_def)
next
  case (Some p)
  from close_leaves_dead [OF Some] obtain p' where
    p': "process (SBTProcess_close s) = Some p'" "\<not> alive p'" by blast
  then show ?thesis
    by (simp add: SBTProcess_close_def [of "SBTProcess_close s"] isalive_dead)
qed

text \<open>
  Claim C9. Closing a session whose child is running first sends \<^verbatim>\<open>exit\<close> and waits,
  with a deadline of 10 seconds, for the end of the stream. If that wait returns,
  \<^verbatim>\<open>terminate\<close> is not called; if it raises (the deadline passed, or anything else),
  \<^verbatim>\<open>terminate(force=True)\<close> is called. Either way the child is dead afterwards,
  and closing once more changes nothing. \<open>SBTProcess_close\<close> has no exceptional
  result: the bare \<^verbatim>\<open>except\<close> takes whatever the graceful path raises.
\<close>

theorem close_graceful_then_forced:
  "SBTProcess_close (SBTProcess_close s) = SBTProcess_close s
   \<and> (\<forall>p. process s = Some p \<and> fst (isalive p) \<longrightarrow>
         (\<exists>p'. process (SBTProcess_close s) = Some p'
            \<and> sent p' = sent p @ [''exit''] \<and> \<not> alive p'
            \<and> ((\<exists>i. fst (expect [EOF] 10 (sendline ''exit'' p)) = Inr i)
                   \<longrightarrow> forced p' = forced p)
            \<and> ((\<exists>e. fst (expect [EOF] 10 (sendline ''exit'' p)) = Inl e)
                   \<longrightarrow> forced p')))"
proof (intro conjI allI impI)
  show "SBTProcess_close (SBTProcess_close s) = SBTProcess_close s"
    by (rule close_twice)
next
  fix p
  assume a: "process s = Some p \<and> fst (isalive p)"
  then have r: "isalive p = (True, p)"
    using isalive_running by simp
  from expect_eof_dead_or_raised [of 10 "sendline ''exit'' p"]
  show "\<exists>p'. process (SBTProcess_close s) = Some p'
            \<and> sent p' = sent p @ [''exit''] \<and> \<not> alive p'
            \<and> ((\<exists>i. fst (expect [EOF] 10 (sendline ''exit'' p)) = Inr i)
                   \<longrightarrow> forced p' = forced p)
            \<and> ((\<exists>e. fst (expect [EOF] 10 (sendline ''exit'' p)) = Inl e)
                   \<longrightarrow> forced p')"
    using a r
    by (auto simp: SBTProcess_close_def terminate_force_def isalive_sent sendline_def)
qed

theorem close_graceful_then_forced_witness:
  "(let s1 = SBTProcess_close (running [StreamEnded ''[info] shutting down'']);
        s2 = SBTProcess_close (running [TimedOut []])
    in map_option sent (process s1) = Some [''exit'']
       \<and> map_option alive (process s1) = Some False
       \<and> map_option forced (process s1) = Some False
       \<and> SBTProcess_close s1 = s1
       \<and> map_option sent (process s2) = Some [''exit'']
       \<and> map_option alive (process s2) = Some False
       \<and> map_option forced (process s2) = Some True
       \<and> SBTProcess_close s2 = s2)"
proof -
  let ?p = "\<lparr>alive = True, pending = [StreamEnded ''[info] shutting down''],
             sent = [], before_text = [], buffer = [], forced = False\<rparr>"
  have a: "process (running [StreamEnded ''[info] shutting down'']) = Some ?p
           \<and> fst (isalive ?p)"
    by (simp add: running_def isalive_def)
  have g: "fst (expect [EOF] 10 (sendline ''exit'' ?p)) = Inr 0"
    by (simp add: expect_def sendline_def)
  have e2: "process (SBTProcess_close (running [TimedOut []]))
            = Some \<lparr>alive = False, pending = [], sent = [''exit''], before_text = [],
                    buffer = [], forced = True\<rparr>"
    by (simp add: SBTProcess_close_def running_def expect_def sendline_def terminate_force_def
        isalive_def)
  from close_graceful_then_forced [of "running [StreamEnded ''[info] shutting down'']"]
       close_graceful_then_forced [of "running [TimedOut []]"] a g e2
  show ?thesis
    by (auto simp: Let_def)
qed


section \<open>Starting a session\<close>

text \<open>
  Claim C7: what \<open>_start_process\<close> does when the startup handshake fails. The pattern
  list holds both sentinels, so \<^verbatim>\<open>expect\<close> returns an index and never raises
  \<^verbatim>\<open>TIMEOUT\<close> or \<^verbatim>\<open>EOF\<close>. On the deadline the index is 2, the test
  \<^verbatim>\<open>index >= 3\<close> lets it through and the constructor returns a session as if the prompt
  had come. On the end of the stream the index is 3 and the \<^verbatim>\<open>RuntimeError\<close> that
  leaves the constructor has a fixed message, without the text read so far.
\<close>

theorem startup_timeout_not_reported:
  "fst (SBTProcess_init (world_of all_present [TimedOut ''[info] loading settings'']) ''/proj'')
     = Inr \<lparr>root = ''/proj'',
            process = Some \<lparr>alive = True, pending = [], sent = [],
                             before_text = ''[info] loading settings'',
                             buffer = ''[info] loading settings'', forced = False\<rparr>\<rparr>
   \<and> fst (SBTProcess_init (world_of all_present [StreamEnded ''[error] java: not found''])
            ''/proj'')
     = Inl (RuntimeError ''Failed to start SBT process: Failed to match prompt. Index: 3'')"
  by (simp add: SBTProcess_init_def start_process_def
      path_exists_def world_of_def all_present_def spawn_and_wait_def
      pexpect_spawn_def expect_def startup_patterns_def path_join_def str_of_nat.simps)


section \<open>The facade\<close>

text \<open>
  Claim C6. If the working root does not exist, or exists and lacks \<^verbatim>\<open>build.sbt\<close>,
  constructing the session raises a \<^verbatim>\<open>ValueError\<close> whose message contains the root
  path, and the world is left as it was: \<^verbatim>\<open>pexpect.spawn\<close> has not been called.
  \<open>ensure_sbt_running\<close> on a project without a session raises the same error and
  keeps no session.
\<close>

theorem missing_marker_no_spawn:
  assumes "fs w r = Absent \<or> (fs w r = Present \<and> fs w (path_join r ''build.sbt'') = Absent)"
  shows "\<exists>m. SBTProcess_init w r = (Inl (ValueError m), w) \<and> sublist r m
           \<and> ensure_sbt_running w \<lparr>project_root = r, sbt_process = None\<rparr>
               = (Inl (ValueError m), \<lparr>project_root = r, sbt_process = None\<rparr>, w)"
proof -
  have s1: "sublist r (''Project root '' @ r @ '' does not exist.'')"
    by (rule sublist_appendI)
  have s2: "sublist r (''No build.sbt found in '' @ r @ ''. Not a valid SBT project.'')"
    by (rule sublist_appendI)
  from assms show ?thesis
  proof
    assume "fs w r = Absent"
    then show ?thesis using s1
      by (simp add: SBTProcess_init_def start_process_def path_exists_def ensure_sbt_running_def)
  next
    assume "fs w r = Present \<and> fs w (path_join r ''build.sbt'') = Absent"
    then show ?thesis using s2
      by (simp add: SBTProcess_init_def start_process_def path_exists_def ensure_sbt_running_def)
  qed
qed

theorem missing_marker_no_spawn_witness:
  "(let w = world_of no_marker [Prompt 0 ''[info] welcome''];
        (r, p, w') = ensure_sbt_running w (DottyProject_init ''/proj'')
    in r = Inl (ValueError ''No build.sbt found in /proj. Not a valid SBT project.'')
       \<and> sbt_process p = None \<and> spawned w' = 0)"
proof -
  have h: "fs (world_of no_marker [Prompt 0 ''[info] welcome'']) ''/proj'' = Absent
           \<or> (fs (world_of no_marker [Prompt 0 ''[info] welcome'']) ''/proj'' = Present
              \<and> fs (world_of no_marker [Prompt 0 ''[info] welcome''])
                   (path_join ''/proj'' ''build.sbt'') = Absent)"
    by (simp add: world_of_def no_marker_def path_join_def)
  have e: "SBTProcess_init (world_of no_marker [Prompt 0 ''[info] welcome'']) ''/proj''
           = (Inl (ValueError ''No build.sbt found in /proj. Not a valid SBT project.''),
              world_of no_marker [Prompt 0 ''[info] welcome''])"
    by (simp add: SBTProcess_init_def start_process_def path_exists_def world_of_def
        no_marker_def path_join_def)
  from missing_marker_no_spawn [OF h] e show ?thesis
    by (auto simp: Let_def DottyProject_init_def world_of_def)
qed


text \<open>
  Claim C8. Whenever \<open>ensure_sbt_running\<close> returns normally, calling it again returns
  normally with the same project, hence the same session, in the same world: no further
  child is spawned by the second call, and the first call has spawned at most one.
\<close>

theorem ensure_sbt_running_idempotent:
  assumes "ensure_sbt_running w p = (Inr u, p1, w1)"
  shows "ensure_sbt_running w1 p1 = (Inr (), p1, w1) \<and> sbt_process p1 \<noteq> None
         \<and> spawned w1 \<le> Suc (spawned w)"
  using assms
  by (auto simp: ensure_sbt_running_def SBTProcess_init_def start_process_def spawn_and_wait_def
      pexpect_spawn_def path_exists_def
      split: option.splits prod.splits sum.splits bool.splits probe.splits if_splits)

theorem ensure_sbt_running_idempotent_witness:
  "(let w = world_of all_present [Prompt 0 ''[info] welcome''];
        (r1, p1, w1) = ensure_sbt_running w (DottyProject_init ''/proj'');
        (r2, p2, w2) = ensure_sbt_running w1 p1
    in r1 = Inr () \<and> r2 = Inr () \<and> p2 = p1 \<and> sbt_process p1 \<noteq> None
       \<and> spawned w1 = 1 \<and> spawned w2 = 1)"
proof -
  have first:
    "ensure_sbt_running (world_of all_present [Prompt 0 ''[info] welcome''])
       (DottyProject_init ''/proj'')
     = (Inr (),
        \<lparr>project_root = ''/proj'',
         sbt_process = Some \<lparr>root = ''/proj'', process = Some
           \<lparr>alive = True, pending = [], sent = [], before_text = ''[info] welcome'',
            buffer = [], forced = False\<rparr>\<rparr>\<rparr>,
        (world_of all_present [Prompt 0 ''[info] welcome''])\<lparr>spawned := 1\<rparr>)"
    by (simp add: ensure_sbt_running_def SBTProcess_init_def start_process_def
        spawn_and_wait_def pexpect_spawn_def path_exists_def world_of_def all_present_def
        DottyProject_init_def expect_def startup_patterns_def path_join_def str_of_nat.simps)
  from ensure_sbt_running_idempotent [OF first] first show ?thesis
    by (simp add: Let_def)
qed


text \<open>
  Claim C1: what the facade does once its session is dead. After \<open>close\<close>, and after
  the child has ended the stream in the middle of a command, the project still holds the
  old session; \<open>ensure_sbt_running\<close> returns normally without spawning, and the next
  \<open>scalac\<close> runs on the dead session and answers \<^verbatim>\<open>Error: SBT process is not running\<close>.
\<close>

theorem dead_session_is_kept:
  "(let w = world_of all_present [Prompt 0 ''[info] welcome''];
        (r0, p0, w0) = ensure_sbt_running w (DottyProject_init ''/proj'');
        p1 = DottyProject_close p0;
        (r2, p2, w2) = ensure_sbt_running w0 p1;
        (text, p3, w3) = scalac w2 p2 ''Foo.scala'' []
    in r0 = Inr () \<and> spawned w0 = 1
       \<and> map_option (map_option alive \<circ> process) (sbt_process p1) = Some (Some False)
       \<and> r2 = Inr () \<and> p2 = p1 \<and> spawned w2 = 1
       \<and> text = ''Error: SBT process is not running'' \<and> p3 = p1 \<and> spawned w3 = 1)
   \<and> (let w = world_of all_present [Prompt 0 ''[info] welcome'', StreamEnded ''[info] compiling''];
        (t1, p1, w1) = scalac w (DottyProject_init ''/proj'') ''Foo.scala'' [];
        (r2, p2, w2) = ensure_sbt_running w1 p1;
        (t3, p3, w3) = scalac w2 p2 ''Foo.scala'' []
    in t1 = ''Compilation failed for Foo.scala\<newline>\<newline>SBT process terminated unexpectedly''
       \<and> spawned w1 = 1
       \<and> map_option (map_option alive \<circ> process) (sbt_process p1) = Some (Some False)
       \<and> r2 = Inr () \<and> p2 = p1 \<and> spawned w2 = 1
       \<and> t3 = ''Error: SBT process is not running'' \<and> p3 = p1 \<and> spawned w3 = 1)"
  by (simp add: Let_def ensure_sbt_running_def SBTProcess_init_def start_process_def
      path_exists_def world_of_def DottyProject_init_def all_present_def spawn_and_wait_def
      pexpect_spawn_def expect_def startup_patterns_def path_join_def str_of_nat.simps DottyProject_close_def
      SBTProcess_close_def sendline_def terminate_force_def isalive_def scalac_def scalac_try_def
      run_command_def execute_command_def)

text \<open>
  Claim C10. \<open>scalac\<close> and \<open>testCompilation\<close> return a text for every project, world
  and arguments. Whatever \<open>ensure_sbt_running\<close> or the execution of the command raises
  is rendered by the \<^verbatim>\<open>except\<close> clauses: a \<^verbatim>\<open>ValueError\<close> or
  \<^verbatim>\<open>RuntimeError\<close> with message \<open>m\<close> as \<^verbatim>\<open>Error: m\<close>, every other exception
  as \<^verbatim>\<open>Unexpected error: m\<close>.
\<close>

theorem facade_never_raises:
  "(\<forall>e p' w'. ensure_sbt_running w p = (Inl e, p', w') \<longrightarrow>
       scalac w p file options = (facade_except e, p', w')
       \<and> testCompilation w p pattern = (facade_except e, p', w'))
   \<and> (\<forall>u p' w' e p''. ensure_sbt_running w p = (Inr u, p', w')
         \<and> run_command p' (''scalac '' @ file @ '' '' @ join '' '' (''-color:never'' # options))
             = (Inl e, p'') \<longrightarrow>
       scalac w p file options = (facade_except e, p'', w'))
   \<and> (\<forall>u p' w' e p''. ensure_sbt_running w p = (Inr u, p', w')
         \<and> run_command p' (if pattern \<noteq> [] then ''testCompilation '' @ pattern
                            else ''testCompilation'')
             = (Inl e, p'') \<longrightarrow>
       testCompilation w p pattern = (facade_except e, p'', w'))
   \<and> (\<forall>m. facade_except (ValueError m) = ''Error: '' @ m)
   \<and> (\<forall>m. facade_except (RuntimeError m) = ''Error: '' @ m)
   \<and> (\<forall>e. (\<forall>m. e \<noteq> ValueError m) \<and> (\<forall>m. e \<noteq> RuntimeError m) \<longrightarrow>
          facade_except e = ''Unexpected error: '' @ exn_str e)"
proof -
  have opts: "(if options \<noteq> [] then options else []) = options"
    by simp
  have other: "facade_except e = ''Unexpected error: '' @ exn_str e"
    if "\<forall>m. e \<noteq> ValueError m" and "\<forall>m. e \<noteq> RuntimeError m" for e
    using that by (cases e) simp_all
  show ?thesis
    by (intro conjI allI impI)
       (auto simp: scalac_def scalac_try_def testCompilation_def testCompilation_try_def
             Let_def opts other)
qed

theorem facade_never_raises_witness:
  "fst (scalac (world_of (\<lambda>path. Absent) []) (DottyProject_init ''/proj'') ''Foo.scala'' [])
     = ''Error: Project root /proj does not exist.''
   \<and> fst (testCompilation (world_of (\<lambda>path. Denied ''[Errno 13] Permission denied'') [])
            (DottyProject_init ''/proj'') ''pos'')
     = ''Unexpected error: [Errno 13] Permission denied''
   \<and> fst (scalac (world_of all_present [StreamEnded []]) (DottyProject_init ''/proj'')
            ''Foo.scala'' [''-Xprint:typer''])
     = ''Error: Failed to start SBT process: Failed to match prompt. Index: 3''"
proof -
  have a: "ensure_sbt_running (world_of (\<lambda>path. Absent) []) (DottyProject_init ''/proj'')
           = (Inl (ValueError ''Project root /proj does not exist.''),
              DottyProject_init ''/proj'', world_of (\<lambda>path. Absent) [])"
    by (simp add: ensure_sbt_running_def SBTProcess_init_def start_process_def path_exists_def
        world_of_def DottyProject_init_def)
  have b: "ensure_sbt_running (world_of (\<lambda>path. Denied ''[Errno 13] Permission denied'') [])
             (DottyProject_init ''/proj'')
           = (Inl (OtherException ''[Errno 13] Permission denied''),
              DottyProject_init ''/proj'',
              world_of (\<lambda>path. Denied ''[Errno 13] Permission denied'') [])"
    by (simp add: ensure_sbt_running_def SBTProcess_init_def start_process_def path_exists_def
        world_of_def DottyProject_init_def)
  have c: "ensure_sbt_running (world_of all_present [StreamEnded []]) (DottyProject_init ''/proj'')
           = (Inl (RuntimeError ''Failed to start SBT process: Failed to match prompt. Index: 3''),
              DottyProject_init ''/proj'', (world_of all_present [StreamEnded []])\<lparr>spawned := 1\<rparr>)"
    by (simp add: ensure_sbt_running_def SBTProcess_init_def start_process_def path_exists_def
        world_of_def DottyProject_init_def all_present_def spawn_and_wait_def pexpect_spawn_def
        expect_def startup_patterns_def path_join_def str_of_nat.simps)
  from facade_never_raises
         [of "world_of (\<lambda>path. Absent) []" "DottyProject_init ''/proj''"
             "''Foo.scala''" "[]" "''pos''"]
       facade_never_raises
         [of "world_of (\<lambda>path. Denied ''[Errno 13] Permission denied'') []"
             "DottyProject_init ''/proj''" "''Foo.scala''" "[]" "''pos''"]
       facade_never_raises
         [of "world_of all_present [StreamEnded []]" "DottyProject_init ''/proj''"
             "''Foo.scala''" "[''-Xprint:typer'']" "''pos''"]
       a b c
  show ?thesis by simp
qed

end
